theory Spec2Isabelle
  imports Main
begin

section \<open>JavaScript strings\<close>

text \<open>
  Strings are lists of characters. The string methods used by the source are written out:
  \<open>startsWith\<close>, \<open>endsWith\<close>, \<open>includes\<close>, \<open>split\<close> on a one-character separator,
  \<open>join\<close>, and \<open>replace(/\/+$/, '')\<close>, which drops the run of slashes at the end.
\<close>

definition startsWith :: "string \<Rightarrow> string \<Rightarrow> bool" where
  "startsWith s p = (take (length p) s = p)"

definition endsWith :: "string \<Rightarrow> string \<Rightarrow> bool" where
  "endsWith s p = (length p \<le> length s \<and> drop (length s - length p) s = p)"

fun js_includes :: "string \<Rightarrow> string \<Rightarrow> bool" where
  "js_includes [] p = (p = [])"
| "js_includes (c # s) p = (startsWith (c # s) p \<or> js_includes s p)"

fun js_split :: "char \<Rightarrow> string \<Rightarrow> string list" where
  "js_split sep [] = [[]]"
| "js_split sep (c # s) =
     (if c = sep then [] # js_split sep s
      else (case js_split sep s of [] \<Rightarrow> [[c]] | p # ps \<Rightarrow> (c # p) # ps))"

fun js_join :: "string \<Rightarrow> string list \<Rightarrow> string" where
  "js_join sep [] = []"
| "js_join sep [p] = p"
| "js_join sep (p # q # ps) = p @ sep @ js_join sep (q # ps)"

definition stripTrailingSlashes :: "string \<Rightarrow> string" where
  "stripTrailingSlashes p = rev (dropWhile (\<lambda>c. c = CHR ''/'') (rev p))"

section \<open>pathUtils\<close>

definition dirname :: "string \<Rightarrow> string" where
  "dirname path =
     (if path = [] \<or> CHR ''/'' \<notin> set path then ''.''
      else (let d = js_join ''/'' (butlast (js_split CHR ''/'' (stripTrailingSlashes path)))
            in if d = [] then ''/'' else d))"

definition basename :: "string \<Rightarrow> string option \<Rightarrow> string" where
  "basename path ext =
     (let base = last (js_split CHR ''/'' (stripTrailingSlashes path))
      in case ext of
           None \<Rightarrow> base
         | Some e \<Rightarrow>
             if e \<noteq> [] \<and> endsWith base e then take (length base - length e) base
             else base)"

definition normalizePathParts :: "string \<Rightarrow> string list" where
  "normalizePathParts p = filter (\<lambda>s. s \<noteq> []) (js_split CHR ''/'' (stripTrailingSlashes p))"

text \<open>
  The \<open>for\<close> loop of \<open>relative\<close>: \<open>i\<close> runs from 0 while \<open>i < minLength\<close>, the loop
  breaks at the first index where the parts differ, and \<open>commonLength\<close> counts the
  iterations that did not break.
\<close>

function commonLoop :: "string list \<Rightarrow> string list \<Rightarrow> nat \<Rightarrow> nat \<Rightarrow> nat \<Rightarrow> nat" where
  "commonLoop fromParts toParts minLength i commonLength =
     (if i < minLength then
        (if fromParts ! i \<noteq> toParts ! i then commonLength
         else commonLoop fromParts toParts minLength (i + 1) (commonLength + 1))
      else commonLength)"
  by pat_completeness auto
termination
  by (relation "measure (\<lambda>(fromParts, toParts, minLength, i, commonLength). minLength - i)") auto

declare commonLoop.simps [simp del]

definition relative :: "string \<Rightarrow> string \<Rightarrow> string" where
  "relative from to =
     (if from = [] \<or> to = [] then ''.''
      else
        (let fromParts = normalizePathParts from;
             toParts = normalizePathParts to;
             minLength = min (length fromParts) (length toParts);
             commonLength = commonLoop fromParts toParts minLength 0 0;
             upCount = length fromParts - commonLength;
             remainingPath = drop commonLength toParts;
             relativeParts = replicate upCount ''..'' @ remainingPath
         in if relativeParts = [] then ''.'' else js_join ''/'' relativeParts))"

section \<open>Values, errors and the container's file system\<close>

text \<open>
  The values the source types as \<open>any\<close> (file contents, option values) are JavaScript
  values; an options object is a finite map from property names to values, and reading a
  property that is absent gives \<open>undefined\<close>.
\<close>

datatype js_val = JUndefined | JNull | JBool bool | JNumber int | JString string | JBytes "nat list"

type_synonym js_object = "string \<rightharpoonup> js_val"

definition property :: "js_object \<Rightarrow> string \<Rightarrow> js_val" where
  "property obj key = (case obj key of None \<Rightarrow> JUndefined | Some v \<Rightarrow> v)"

text \<open>
  What a \<open>throw\<close> carries: the string thrown by \<open>gitClone\<close>, or an \<open>Error\<close> object,
  which may have been given the fields of a \<open>NodeJS.ErrnoException\<close>.
\<close>

record js_error =
  err_message :: string
  err_code :: "string option"
  err_errno :: "int option"
  err_syscall :: "string option"
  err_path :: "string option"

datatype thrown = ThrownString string | ThrownError js_error

definition new_Error :: "string \<Rightarrow> js_error" where
  "new_Error msg =
     \<lparr>err_message = msg, err_code = None, err_errno = None, err_syscall = None, err_path = None\<rparr>"

record dirent =
  dirent_name :: string
  dirent_isFile :: bool
  dirent_isDirectory :: bool

datatype readdir_result = Names "string list" | Dirents "dirent list"

text \<open>
  The container runtime is an external collaborator. Its file-system calls are taken as
  they are: each one reads and changes a state \<open>'e\<close> of the world outside this code and
  either resolves to a value or rejects with an error.
\<close>

record 'e webcontainer =
  workdir :: string
  fs_readFile :: "string \<Rightarrow> js_val \<Rightarrow> 'e \<Rightarrow> (thrown + js_val) \<times> 'e"
  fs_writeFile :: "string \<Rightarrow> js_val \<Rightarrow> js_object \<Rightarrow> 'e \<Rightarrow> (thrown + unit) \<times> 'e"
  fs_mkdir :: "string \<Rightarrow> js_object \<Rightarrow> 'e \<Rightarrow> (thrown + js_val) \<times> 'e"
  fs_readdir :: "string \<Rightarrow> js_object \<Rightarrow> 'e \<Rightarrow> (thrown + readdir_result) \<times> 'e"
  fs_rm :: "string \<Rightarrow> js_object \<Rightarrow> 'e \<Rightarrow> (thrown + unit) \<times> 'e"

section \<open>The state of the hook and of the page\<close>

record file_entry =
  entry_data :: js_val
  entry_encoding :: js_val

datatype toast = ToastError string | ToastSuccess string | ToastInfo string

record clone_args =
  arg_dir :: string
  arg_url :: string
  arg_depth :: nat
  arg_singleBranch :: bool
  arg_corsProxy :: string

text \<open>
  The names of the properties every plain object inherits from \<open>Object.prototype\<close>.
  Reading one of them from an object that has no property of its own by that name gives
  the inherited member (a function, or for \<open>__proto__\<close> the prototype), which is
  truthy. Assigning to one of them creates a property of the object's own, as for any
  other name, except for \<open>__proto__\<close>: assigning an object to \<open>obj['__proto__']\<close>
  makes it the prototype of \<open>obj\<close> and gives \<open>obj\<close> no property of its own.
\<close>

definition objectPrototypeNames :: "string list" where
  "objectPrototypeNames =
     [''constructor'', ''__defineGetter__'', ''__defineSetter__'', ''hasOwnProperty'',
      ''__lookupGetter__'', ''__lookupSetter__'', ''isPrototypeOf'', ''propertyIsEnumerable'',
      ''toString'', ''valueOf'', ''__proto__'', ''toLocaleString'']"

text \<open>
  \<open>ext\<close> is the state outside this code, \<open>toasts\<close> the notifications shown, and
  \<open>dialogs\<close> the messages of the \<open>confirm\<close> and \<open>prompt\<close> dialogs put to the user.
  The plain object held in the ref is \<open>fileData\<close>, its own properties (what
  \<open>Object.entries\<close> lists), with \<open>fileDataProto\<close>, the object that an assignment to
  \<open>__proto__\<close> has made its prototype, if there was one. \<open>writeCalls\<close> observes the
  calls of the adapter's \<open>writeFile\<close>: their arguments, in order. The lines written
  with \<open>console.log\<close> are diagnostics and are not part of the state.
\<close>

record 'e world =
  ext :: 'e
  fileData :: "string \<rightharpoonup> file_entry"
  fileDataProto :: "file_entry option"
  toasts :: "toast list"
  dialogs :: "string list"
  writeCalls :: "(string \<times> js_val \<times> js_object) list"

definition external :: "('e \<Rightarrow> 'a \<times> 'e) \<Rightarrow> 'e world \<Rightarrow> 'a \<times> 'e world" where
  "external call w = (case call (ext w) of (r, e') \<Rightarrow> (r, w\<lparr>ext := e'\<rparr>))"

definition toast_error :: "string \<Rightarrow> 'e world \<Rightarrow> 'e world" where
  "toast_error msg w = w\<lparr>toasts := toasts w @ [ToastError msg]\<rparr>"

record git_auth =
  auth_username :: "string option"
  auth_password :: "string option"
  auth_cancel :: "bool option"

record stats =
  st_isFile :: bool
  st_isDirectory :: bool
  st_isSymbolicLink :: bool
  st_size :: nat
  st_mode :: nat
  st_mtimeMs :: int
  st_uid :: nat
  st_gid :: nat

section \<open>The Git library as a caller of the adapter\<close>

text \<open>
  \<open>git.clone\<close> is external. What this code can see of it is the sequence of calls it
  makes to the file-system adapter and to the three callbacks, each next call chosen from
  the results of the earlier ones, and whether it resolves or rejects in the end. What
  the library receives from the network is part of that choice. Calls that the library
  has in flight together are taken one after the other, in the order in which they are
  made.
\<close>

datatype git_prog =
    Return "thrown + unit"
  | ReadFile string js_object "thrown + js_val \<Rightarrow> git_prog"
  | WriteFile string js_val js_object "thrown + unit \<Rightarrow> git_prog"
  | Mkdir string js_object "thrown + js_val \<Rightarrow> git_prog"
  | Readdir string js_object "thrown + readdir_result \<Rightarrow> git_prog"
  | Rm string "js_object option" "thrown + unit \<Rightarrow> git_prog"
  | Rmdir string js_object "thrown + unit \<Rightarrow> git_prog"
  | Unlink string "thrown + unit \<Rightarrow> git_prog"
  | Stat string "thrown + stats \<Rightarrow> git_prog"
  | Lstat string "thrown + stats \<Rightarrow> git_prog"
  | Readlink string "thrown + unit \<Rightarrow> git_prog"
  | Symlink string string "thrown + unit \<Rightarrow> git_prog"
  | Chmod string int "thrown + unit \<Rightarrow> git_prog"
  | OnAuth string "thrown + git_auth \<Rightarrow> git_prog"
  | OnAuthFailure string git_auth git_prog
  | OnAuthSuccess string git_auth "thrown + unit \<Rightarrow> git_prog"

text \<open>
  The other external collaborators: the credential functions of \<open>~/lib/auth\<close>, the
  browser's \<open>confirm\<close> and \<open>prompt\<close> (the user's answers; \<open>prompt\<close> gives \<open>null\<close>
  when it is dismissed), the clock, and the Git library.
\<close>

record 'e env =
  ensureEncryption :: "'e \<Rightarrow> (thrown + bool) \<times> 'e"
  lookupSavedPassword :: "string \<Rightarrow> 'e \<Rightarrow> (thrown + git_auth option) \<times> 'e"
  saveGitAuth :: "string \<Rightarrow> git_auth \<Rightarrow> 'e \<Rightarrow> (thrown + unit) \<times> 'e"
  confirm :: "string \<Rightarrow> 'e \<Rightarrow> bool \<times> 'e"
  prompt :: "string \<Rightarrow> 'e \<Rightarrow> string option \<times> 'e"
  date_now :: "'e \<Rightarrow> int"
  git_clone :: "clone_args \<Rightarrow> git_prog"

section \<open>getFs: the file-system adapter\<close>

definition readFile :: "'e webcontainer \<Rightarrow> string \<Rightarrow> js_object \<Rightarrow> 'e world \<Rightarrow> (thrown + js_val) \<times> 'e world" where
  "readFile wc path options w =
     (let encoding = property options ''encoding'';
          relativePath = relative (workdir wc) path
      in external (fs_readFile wc relativePath encoding) w)"

text \<open>
  \<open>record.current[relativePath] = value\<close> on the plain object of the ref.
\<close>

definition assignEntry :: "string \<Rightarrow> file_entry \<Rightarrow> 'e world \<Rightarrow> 'e world" where
  "assignEntry key entry w =
     (if key = ''__proto__'' then w\<lparr>fileDataProto := Some entry\<rparr>
      else w\<lparr>fileData := (fileData w)(key \<mapsto> entry)\<rparr>)"

text \<open>
  \<open>record.current\<close> is an object whenever the adapter exists, so the guard around the
  assignment always passes. \<open>{ ...options, encoding }\<close> is \<open>options\<close> with the property
  \<open>encoding\<close> set.
\<close>

definition writeFile :: "'e webcontainer \<Rightarrow> string \<Rightarrow> js_val \<Rightarrow> js_object \<Rightarrow> 'e world \<Rightarrow> (thrown + unit) \<times> 'e world" where
  "writeFile wc path data options w =
     (let encoding = property options ''encoding'';
          relativePath = relative (workdir wc) path;
          w1 = (assignEntry relativePath \<lparr>entry_data = data, entry_encoding = encoding\<rparr> w)
                 \<lparr>writeCalls := writeCalls w @ [(path, data, options)]\<rparr>
      in external (fs_writeFile wc relativePath data (options(''encoding'' \<mapsto> encoding))) w1)"

definition mkdir :: "'e webcontainer \<Rightarrow> string \<Rightarrow> js_object \<Rightarrow> 'e world \<Rightarrow> (thrown + js_val) \<times> 'e world" where
  "mkdir wc path options w =
     (let relativePath = relative (workdir wc) path
      in external (fs_mkdir wc relativePath (options(''recursive'' \<mapsto> JBool True))) w)"

definition readdir :: "'e webcontainer \<Rightarrow> string \<Rightarrow> js_object \<Rightarrow> 'e world \<Rightarrow> (thrown + readdir_result) \<times> 'e world" where
  "readdir wc path options w =
     (let relativePath = relative (workdir wc) path
      in external (fs_readdir wc relativePath options) w)"

definition rm :: "'e webcontainer \<Rightarrow> string \<Rightarrow> js_object option \<Rightarrow> 'e world \<Rightarrow> (thrown + unit) \<times> 'e world" where
  "rm wc path options w =
     (let relativePath = relative (workdir wc) path
      in external (fs_rm wc relativePath (case options of None \<Rightarrow> Map.empty | Some obj \<Rightarrow> obj)) w)"

definition rmdir :: "'e webcontainer \<Rightarrow> string \<Rightarrow> js_object \<Rightarrow> 'e world \<Rightarrow> (thrown + unit) \<times> 'e world" where
  "rmdir wc path options w =
     (let relativePath = relative (workdir wc) path
      in external (fs_rm wc relativePath ([''recursive'' \<mapsto> JBool True] ++ options)) w)"

definition unlink :: "'e webcontainer \<Rightarrow> string \<Rightarrow> 'e world \<Rightarrow> (thrown + unit) \<times> 'e world" where
  "unlink wc path w =
     (let relativePath = relative (workdir wc) path
      in external (fs_rm wc relativePath [''recursive'' \<mapsto> JBool False]) w)"

definition quoted :: "string \<Rightarrow> string" where
  "quoted s = [CHR 0x27] @ s @ [CHR 0x27]"

definition enoent :: "string \<Rightarrow> thrown" where
  "enoent path =
     ThrownError
       \<lparr>err_message = ''ENOENT: no such file or directory, stat '' @ quoted path,
        err_code = Some ''ENOENT'',
        err_errno = Some (- 2),
        err_syscall = Some ''stat'',
        err_path = Some path\<rparr>"

text \<open>
  \<open>resp.find((x) => x.name == name)\<close>: a directory entry has a name; a bare string has
  no property \<open>name\<close>, and \<open>undefined\<close> equals no string.
\<close>

definition findFileInfo :: "string \<Rightarrow> readdir_result \<Rightarrow> dirent option" where
  "findFileInfo name resp =
     (case resp of
        Dirents entries \<Rightarrow> find (\<lambda>x. dirent_name x = name) entries
      | Names names \<Rightarrow> None)"

text \<open>
  Everything \<open>stat\<close> does is inside one \<open>try\<close>: a rejection of \<open>readdir\<close> and the
  \<open>Error\<close> thrown when the entry is not found both reach the \<open>catch\<close>, which throws
  the ENOENT error instead. \<open>0o666\<close> is 438.
\<close>

definition stat :: "'e env \<Rightarrow> 'e webcontainer \<Rightarrow> string \<Rightarrow> 'e world \<Rightarrow> (thrown + stats) \<times> 'e world" where
  "stat env wc path w =
     (let relativePath = relative (workdir wc) path
      in case external (fs_readdir wc (dirname relativePath) [''withFileTypes'' \<mapsto> JBool True]) w of
           (Inl error, w1) \<Rightarrow> (Inl (enoent path), w1)
         | (Inr resp, w1) \<Rightarrow>
             (let name = basename relativePath None
              in case findFileInfo name resp of
                   None \<Rightarrow> (Inl (enoent path), w1)
                 | Some fileInfo \<Rightarrow>
                     (Inr \<lparr>st_isFile = dirent_isFile fileInfo,
                           st_isDirectory = dirent_isDirectory fileInfo,
                           st_isSymbolicLink = False,
                           st_size = 1,
                           st_mode = 6 * 8 ^ 2 + 6 * 8 + 6,
                           st_mtimeMs = date_now env (ext w1),
                           st_uid = 1000,
                           st_gid = 1000\<rparr>, w1)))"

definition lstat :: "'e env \<Rightarrow> 'e webcontainer \<Rightarrow> string \<Rightarrow> 'e world \<Rightarrow> (thrown + stats) \<times> 'e world" where
  "lstat env wc path w = stat env wc path w"

definition readlink :: "string \<Rightarrow> 'e world \<Rightarrow> (thrown + unit) \<times> 'e world" where
  "readlink path w =
     (Inl (ThrownError (new_Error (''EINVAL: invalid argument, readlink '' @ quoted path))), w)"

definition symlink :: "string \<Rightarrow> string \<Rightarrow> 'e world \<Rightarrow> (thrown + unit) \<times> 'e world" where
  "symlink target path w =
     (Inl (ThrownError (new_Error
        (''EPERM: operation not permitted, symlink '' @ quoted target @ '' -> '' @ quoted path))), w)"

definition chmod :: "string \<Rightarrow> int \<Rightarrow> 'e world \<Rightarrow> (thrown + unit) \<times> 'e world" where
  "chmod path mode w = (Inr (), w)"

section \<open>useGit: the callbacks and gitClone\<close>

definition show_confirm :: "'e env \<Rightarrow> string \<Rightarrow> 'e world \<Rightarrow> bool \<times> 'e world" where
  "show_confirm env msg w = external (confirm env msg) (w\<lparr>dialogs := dialogs w @ [msg]\<rparr>)"

definition show_prompt :: "'e env \<Rightarrow> string \<Rightarrow> 'e world \<Rightarrow> string option \<times> 'e world" where
  "show_prompt env msg w = external (prompt env msg) (w\<lparr>dialogs := dialogs w @ [msg]\<rparr>)"

definition cancelled :: git_auth where
  "cancelled = \<lparr>auth_username = None, auth_password = None, auth_cancel = Some True\<rparr>"

text \<open>
  \<open>username && password\<close> holds when neither answer is \<open>null\<close> or the empty string.
  Both prompts are shown once the user has confirmed, whatever the first answer is.
\<close>

definition onAuth :: "'e env \<Rightarrow> string \<Rightarrow> 'e world \<Rightarrow> (thrown + git_auth) \<times> 'e world" where
  "onAuth env url w =
     (case external (ensureEncryption env) w of
        (Inl error, w1) \<Rightarrow> (Inl error, w1)
      | (Inr False, w1) \<Rightarrow> (Inr cancelled, w1)
      | (Inr True, w1) \<Rightarrow>
          (case external (lookupSavedPassword env url) w1 of
             (Inl error, w2) \<Rightarrow> (Inl error, w2)
           | (Inr (Some auth), w2) \<Rightarrow> (Inr auth, w2)
           | (Inr None, w2) \<Rightarrow>
               (case show_confirm env
                       ''This repo is password protected. Ready to enter a username & password?'' w2 of
                  (False, w3) \<Rightarrow> (Inr cancelled, w3)
                | (True, w3) \<Rightarrow>
                    (case show_prompt env ''Enter username'' w3 of
                       (username, w4) \<Rightarrow>
                         (case show_prompt env ''Enter password'' w4 of
                            (password, w5) \<Rightarrow>
                              (case (username, password) of
                                 (Some u, Some p) \<Rightarrow>
                                   if u \<noteq> [] \<and> p \<noteq> [] then
                                     (Inr \<lparr>auth_username = Some u, auth_password = Some p,
                                           auth_cancel = None\<rparr>, w5)
                                   else (Inr cancelled, w5)
                               | _ \<Rightarrow> (Inr cancelled, w5)))))))"

text \<open>
  \<open>url.split('/')[2]\<close> is \<open>undefined\<close> when the URL has fewer than three parts, and
  the template then prints the word.
\<close>

definition onAuthFailure :: "string \<Rightarrow> git_auth \<Rightarrow> 'e world \<Rightarrow> 'e world" where
  "onAuthFailure url auth w =
     (let parts = js_split CHR ''/'' url
      in toast_error (''Error Authenticating with '' @
           (if 2 < length parts then parts ! 2 else ''undefined'')) w)"

definition onAuthSuccess :: "'e env \<Rightarrow> string \<Rightarrow> git_auth \<Rightarrow> 'e world \<Rightarrow> (thrown + unit) \<times> 'e world" where
  "onAuthSuccess env url auth w = external (saveGitAuth env url auth) w"

text \<open>
  Running the library against the adapter built on the container \<open>wc\<close>.
\<close>

primrec git_run :: "'e env \<Rightarrow> 'e webcontainer \<Rightarrow> git_prog \<Rightarrow> 'e world \<Rightarrow>
    (thrown + unit) \<times> 'e world" where
  "git_run env wc (Return r) w = (r, w)"
| "git_run env wc (ReadFile path options k) w =
     (case readFile wc path options w of (r, w1) \<Rightarrow> git_run env wc (k r) w1)"
| "git_run env wc (WriteFile path data options k) w =
     (case writeFile wc path data options w of (r, w1) \<Rightarrow> git_run env wc (k r) w1)"
| "git_run env wc (Mkdir path options k) w =
     (case mkdir wc path options w of (r, w1) \<Rightarrow> git_run env wc (k r) w1)"
| "git_run env wc (Readdir path options k) w =
     (case readdir wc path options w of (r, w1) \<Rightarrow> git_run env wc (k r) w1)"
| "git_run env wc (Rm path options k) w =
     (case rm wc path options w of (r, w1) \<Rightarrow> git_run env wc (k r) w1)"
| "git_run env wc (Rmdir path options k) w =
     (case rmdir wc path options w of (r, w1) \<Rightarrow> git_run env wc (k r) w1)"
| "git_run env wc (Unlink path k) w =
     (case unlink wc path w of (r, w1) \<Rightarrow> git_run env wc (k r) w1)"
| "git_run env wc (Stat path k) w =
     (case stat env wc path w of (r, w1) \<Rightarrow> git_run env wc (k r) w1)"
| "git_run env wc (Lstat path k) w =
     (case lstat env wc path w of (r, w1) \<Rightarrow> git_run env wc (k r) w1)"
| "git_run env wc (Readlink path k) w =
     (case readlink path w of (r, w1) \<Rightarrow> git_run env wc (k r) w1)"
| "git_run env wc (Symlink target path k) w =
     (case symlink target path w of (r, w1) \<Rightarrow> git_run env wc (k r) w1)"
| "git_run env wc (Chmod path mode k) w =
     (case chmod path mode w of (r, w1) \<Rightarrow> git_run env wc (k r) w1)"
| "git_run env wc (OnAuth url k) w =
     (case onAuth env url w of (r, w1) \<Rightarrow> git_run env wc (k r) w1)"
| "git_run env wc (OnAuthFailure url auth next) w =
     git_run env wc next (onAuthFailure url auth w)"
| "git_run env wc (OnAuthSuccess url auth k) w =
     (case onAuthSuccess env url auth w of (r, w1) \<Rightarrow> git_run env wc (k r) w1)"

text \<open>
  The state of the hook: \<open>ready\<close>, the container, and the adapter \<open>getFs(container,
  fileData)\<close>, which is determined by the container it was built on. The effect that
  runs when the container has booted sets all three and puts a new empty object in the
  ref, as \<open>gitClone\<close> does when it starts.
\<close>

record 'e hook =
  ready :: bool
  webcontainer :: "'e webcontainer option"
  fs :: "'e webcontainer option"

definition emptyRecord :: "'e world \<Rightarrow> 'e world" where
  "emptyRecord w = w\<lparr>fileData := Map.empty, fileDataProto := None\<rparr>"

definition booted :: "'e webcontainer \<Rightarrow> 'e world \<Rightarrow> 'e hook \<times> 'e world" where
  "booted container w =
     (\<lparr>ready = True, webcontainer = Some container, fs = Some container\<rparr>, emptyRecord w)"

record clone_result =
  res_workdir :: string
  res_data :: "string \<rightharpoonup> file_entry"

definition clone_args_of :: "'e webcontainer \<Rightarrow> string \<Rightarrow> clone_args" where
  "clone_args_of wc url =
     \<lparr>arg_dir = workdir wc, arg_url = url, arg_depth = 1, arg_singleBranch = True,
      arg_corsProxy = ''https://cors.isomorphic-git.org''\<rparr>"

text \<open>
  The body of the \<open>try\<close> of \<open>gitClone\<close>: the check of the URL, the call of the library
  and the copy of the entries of the record into \<open>data\<close>. No entry has the key
  \<open>__proto__\<close>, so the copy has the same entries.
\<close>

definition gitClone_try :: "'e env \<Rightarrow> 'e webcontainer \<Rightarrow> 'e webcontainer \<Rightarrow> string \<Rightarrow> 'e world \<Rightarrow>
    (thrown + clone_result) \<times> 'e world" where
  "gitClone_try env wc fsc url w =
     (if startsWith url ''git@'' then
        (Inl (ThrownError (new_Error
           ''SSH protocol is not supported. Please use HTTPS URL instead.'')), w)
      else
        (case git_run env fsc (git_clone env (clone_args_of wc url)) w of
           (Inl error, w1) \<Rightarrow> (Inl error, w1)
         | (Inr u, w1) \<Rightarrow>
             (Inr \<lparr>res_workdir = workdir wc, res_data = fileData w1\<rparr>, w1)))"

definition gitClone :: "'e env \<Rightarrow> 'e hook \<Rightarrow> string \<Rightarrow> 'e world \<Rightarrow> (thrown + clone_result) \<times> 'e world" where
  "gitClone env h url w =
     (case (webcontainer h, fs h, ready h) of
        (Some wc, Some fsc, True) \<Rightarrow>
          (case gitClone_try env wc fsc url (emptyRecord w) of
             (Inl error, w1) \<Rightarrow>
               (Inl error,
                toast_error
                  (case error of
                     ThrownError e \<Rightarrow> err_message e
                   | ThrownString s \<Rightarrow> ''Failed to clone repository'') w1)
           | (Inr result, w1) \<Rightarrow> (Inr result, w1))
      | _ \<Rightarrow> (Inl (ThrownString ''Webcontainer not initialized''), w))"

section \<open>EditorStore.updateFile\<close>

text \<open>
  A document. \<open>updateFile\<close> can store an object that has only the property
  \<open>value\<close>, so the other properties may be absent.
\<close>

record editor_document =
  doc_value :: string
  doc_filePath :: "string option"
  doc_scroll :: "(int \<times> int) option"
  doc_isBinary :: "bool option"

text \<open>
  \<open>documents[filePath]\<close> on the plain object of the documents store: the document, when
  the object has a property of its own by that name; the member inherited from
  \<open>Object.prototype\<close>, when the name is one of its names; \<open>undefined\<close> otherwise.
\<close>

datatype document_lookup = OwnDocument editor_document | InheritedMember | NoDocument

definition lookupDocument :: "(string \<rightharpoonup> editor_document) \<Rightarrow> string \<Rightarrow> document_lookup" where
  "lookupDocument documents filePath =
     (case documents filePath of
        Some document \<Rightarrow> OwnDocument document
      | None \<Rightarrow> if filePath \<in> set objectPrototypeNames then InheritedMember else NoDocument)"

text \<open>
  The stores \<open>updateFile\<close> touches: the documents, the version history (a store of its
  own, changed only through \<open>addVersion\<close>), and the workbench's \<open>unsavedFiles\<close> and
  \<open>modifiedFiles\<close>. \<open>addVersion\<close> and the files store's \<open>isExistingFile\<close> are not
  part of this source and are taken as they are.
\<close>

record 'v editor_state =
  documents :: "string \<rightharpoonup> editor_document"
  versionHistory :: 'v
  unsavedFiles :: "string set"
  modifiedFiles :: "string set"

record 'v editor_deps =
  addVersion :: "string \<Rightarrow> string \<Rightarrow> string \<Rightarrow> 'v \<Rightarrow> 'v"
  isExistingFile :: "string \<Rightarrow> bool"

text \<open>
  The body of \<open>if (contentChanged)\<close>, with the object that \<open>setKey\<close> stores. The map
  store replaces its object by a copy with the key set, so the key becomes a property of
  the object's own, whatever its name.
\<close>

definition contentChanged_body :: "'v editor_deps \<Rightarrow> string \<Rightarrow> string \<Rightarrow> editor_document \<Rightarrow>
    'v editor_state \<Rightarrow> 'v editor_state" where
  "contentChanged_body deps filePath newContent stored s =
     (let s1 = s\<lparr>versionHistory :=
                 addVersion deps filePath newContent ''Modified in editor'' (versionHistory s)\<rparr>;
          s2 = (if isExistingFile deps filePath then
                  s1\<lparr>unsavedFiles := insert filePath (unsavedFiles s1),
                     modifiedFiles := insert filePath (modifiedFiles s1)\<rparr>
                else s1)
      in s2\<lparr>documents := (documents s2)(filePath \<mapsto> stored)\<rparr>)"

text \<open>
  When \<open>documentState\<close> is an inherited member, it is truthy, so the early return is
  not taken; it has no property \<open>value\<close>, so \<open>currentContent\<close> is \<open>undefined\<close>, which
  differs from every string; and it has no enumerable property of its own, so
  \<open>{ ...documentState, value: newContent }\<close> has the property \<open>value\<close> only.
\<close>

definition updateFile :: "'v editor_deps \<Rightarrow> string \<Rightarrow> string \<Rightarrow> 'v editor_state \<Rightarrow> 'v editor_state" where
  "updateFile deps filePath newContent s =
     (case lookupDocument (documents s) filePath of
        NoDocument \<Rightarrow> s
      | OwnDocument documentState \<Rightarrow>
          (let currentContent = doc_value documentState;
               contentChanged = (currentContent \<noteq> newContent)
           in if contentChanged then
                contentChanged_body deps filePath newContent
                  (documentState\<lparr>doc_value := newContent\<rparr>) s
              else s)
      | InheritedMember \<Rightarrow>
          contentChanged_body deps filePath newContent
            \<lparr>doc_value = newContent, doc_filePath = None, doc_scroll = None,
             doc_isBinary = None\<rparr> s)"

section \<open>Workbench: handleGitHubPush\<close>

text \<open>
  The character class of \<open>/[~^:?*[\]\\]/\<close> holds the characters
  \<open>~ ^ : ? * [ ]\<close> and the backslash; \<open>test\<close> asks whether the string has one of
  them anywhere.
\<close>

definition invalidCharacters :: "char list" where
  "invalidCharacters = ''~^:?*[]'' @ [CHR 0x5C]"

definition isValidBranchName :: "string \<Rightarrow> bool" where
  "isValidBranchName branchName =
     (length branchName > 0 \<and> \<not> list_ex (\<lambda>c. c \<in> set invalidCharacters) branchName \<and>
      \<not> endsWith branchName ''.'')"

text \<open>
  \<open>trim\<close> removes white space and line terminators at both ends; of the characters a
  \<open>char\<close> can be, these are tab, line feed, vertical tab, form feed, carriage return,
  space and the no-break space.
\<close>

definition isWhiteSpace :: "char \<Rightarrow> bool" where
  "isWhiteSpace c = (c \<in> set [CHR 0x09, CHR 0x0A, CHR 0x0B, CHR 0x0C, CHR 0x0D, CHR 0x20, CHR 0xA0])"

definition trim :: "string \<Rightarrow> string" where
  "trim s = dropWhile isWhiteSpace (rev (dropWhile isWhiteSpace (rev s)))"

record push_args =
  push_repoName :: string
  push_username :: string
  push_token :: string
  push_isPrivate :: bool
  push_branchName :: "string option"
  push_isNewBranch :: bool

text \<open>
  The state of the component that the handler reads and writes, with the notifications
  shown and, in \<open>pushCalls\<close>, the arguments of the calls of the store's
  \<open>pushToGitHub\<close>, in order. \<open>pushToGitHub\<close> itself belongs to the workbench store
  and is taken as it is: it resolves to the URL of the repository or rejects.
\<close>

record 'e workbench =
  wb_ext :: 'e
  wb_toasts :: "toast list"
  pushCalls :: "push_args list"
  isGitHubPushing :: bool
  showGitHubDialog :: bool
  githubRepoName :: string
  githubUsername :: string
  githubToken :: string
  isPrivateRepo :: bool
  isNewBranch :: bool
  newBranchName :: string

definition wb_toast :: "toast \<Rightarrow> 'e workbench \<Rightarrow> 'e workbench" where
  "wb_toast t u = u\<lparr>wb_toasts := wb_toasts u @ [t]\<rparr>"

definition push_args_of :: "'e workbench \<Rightarrow> push_args" where
  "push_args_of u =
     \<lparr>push_repoName = trim (githubRepoName u),
      push_username = trim (githubUsername u),
      push_token = trim (githubToken u),
      push_isPrivate = isPrivateRepo u,
      push_branchName = (if isNewBranch u then Some (trim (newBranchName u)) else None),
      push_isNewBranch = isNewBranch u\<rparr>"

definition push_failed :: "thrown \<Rightarrow> 'e workbench \<Rightarrow> 'e workbench" where
  "push_failed error u =
     (let errorMessage =
            (case error of
               ThrownError e \<Rightarrow> err_message e
             | ThrownString s \<Rightarrow> ''Failed to push to GitHub'')
      in if js_includes errorMessage ''Repository does not exist'' then
           wb_toast (ToastError
             ''Cannot create a new branch in a non-existent repository. Please create the repository first.'') u
         else if js_includes errorMessage ''rate limit'' then
           wb_toast (ToastError ''GitHub API rate limit exceeded. Please try again later.'') u
         else wb_toast (ToastError errorMessage) u)"

definition handleGitHubPush :: "(push_args \<Rightarrow> 'e \<Rightarrow> (thrown + string) \<times> 'e) \<Rightarrow> 'e workbench \<Rightarrow> 'e workbench" where
  "handleGitHubPush pushToGitHub u =
     (if githubRepoName u = [] \<or> githubUsername u = [] \<or> githubToken u = [] then
        wb_toast (ToastError ''Please fill in all GitHub details'') u
      else if \<not> startsWith (githubToken u) ''ghp_'' \<and> \<not> startsWith (githubToken u) ''github_pat_'' then
        wb_toast (ToastError ''Invalid token format. Please use a GitHub Personal Access Token'') u
      else if isNewBranch u \<and> newBranchName u = [] then
        wb_toast (ToastError ''Please enter a name for the new branch'') u
      else if isNewBranch u \<and> \<not> isValidBranchName (newBranchName u) then
        wb_toast (ToastError
          ''Invalid branch name. Please ensure it does not contain invalid characters or end with a dot.'') u
      else
        (let u1 = u\<lparr>isGitHubPushing := True\<rparr>;
             u2 = u1\<lparr>pushCalls := pushCalls u1 @ [push_args_of u]\<rparr>;
             u4 = (case pushToGitHub (push_args_of u) (wb_ext u2) of
                     (Inr repoUrl, e') \<Rightarrow>
                       (wb_toast (ToastSuccess repoUrl) (u2\<lparr>wb_ext := e'\<rparr>))\<lparr>showGitHubDialog := False\<rparr>
                   | (Inl error, e') \<Rightarrow> push_failed error (u2\<lparr>wb_ext := e'\<rparr>))
         in u4\<lparr>isGitHubPushing := False\<rparr>))"

section \<open>What the claims speak of\<close>

text \<open>
  The pair \<open>writeFile\<close> records for a call: the key is the path relative to the working
  directory, the entry holds the data and the encoding of the options.
\<close>

definition recorded :: "'e webcontainer \<Rightarrow> string \<times> js_val \<times> js_object \<Rightarrow> string \<times> file_entry" where
  "recorded wc call =
     (case call of
        (path, data, options) \<Rightarrow>
          (relative (workdir wc) path,
           \<lparr>entry_data = data, entry_encoding = property options ''encoding''\<rparr>))"

text \<open>
  The entries that a list of \<open>writeFile\<close> calls leaves among the record's own
  properties: a call whose relative path is \<open>__proto__\<close> leaves none.
\<close>

definition recordedEntries :: "'e webcontainer \<Rightarrow> (string \<times> js_val \<times> js_object) list \<Rightarrow>
    (string \<times> file_entry) list" where
  "recordedEntries wc calls = filter (\<lambda>kv. fst kv \<noteq> ''__proto__'') (map (recorded wc) calls)"

text \<open>
  The condition under which a push is to be made, in the words of the claim: the three
  details are filled in, the token has one of the two prefixes, and a new branch, when
  one is asked for, has a name that is not empty, has none of the characters
  \<open>~ ^ : ? * [ ] \\<close> and does not end with a dot.
\<close>

definition push_allowed :: "'e workbench \<Rightarrow> bool" where
  "push_allowed u =
     (githubRepoName u \<noteq> [] \<and> githubUsername u \<noteq> [] \<and> githubToken u \<noteq> [] \<and>
      (take 4 (githubToken u) = ''ghp_'' \<or> take 11 (githubToken u) = ''github_pat_'') \<and>
      (isNewBranch u \<longrightarrow>
         newBranchName u \<noteq> [] \<and>
         set (newBranchName u) \<inter>
           {CHR ''~'', CHR ''^'', CHR '':'', CHR ''?'', CHR ''*'', CHR ''['', CHR '']'', CHR 0x5C} = {} \<and>
         last (newBranchName u) \<noteq> CHR ''.''))"

section \<open>A small container for the examples\<close>

text \<open>
  The outside world of the examples is a list of named files in one directory; the user
  confirms and answers every prompt with the same word; no credential is saved. The
  library of the examples writes one file and resolves.
\<close>

definition example_container :: "(string \<times> js_val) list webcontainer" where
  "example_container =
     \<lparr>workdir = ''/home/project'',
      fs_readFile = (\<lambda>p enc e.
         (case map_of e p of
            None \<Rightarrow> Inl (ThrownError (new_Error ''ENOENT''))
          | Some v \<Rightarrow> Inr v, e)),
      fs_writeFile = (\<lambda>p d opts e. (Inr (), (p, d) # e)),
      fs_mkdir = (\<lambda>p opts e. (Inr JUndefined, e)),
      fs_readdir = (\<lambda>p opts e.
         (Inr (Dirents (map (\<lambda>f. \<lparr>dirent_name = fst f, dirent_isFile = True,
                                   dirent_isDirectory = False\<rparr>) e)), e)),
      fs_rm = (\<lambda>p opts e. (Inr (), filter (\<lambda>f. fst f \<noteq> p) e))\<rparr>"

definition failing_container :: "(string \<times> js_val) list webcontainer" where
  "failing_container =
     example_container\<lparr>fs_readdir := (\<lambda>p opts e. (Inl (ThrownString ''EIO''), e))\<rparr>"

definition example_env :: "(string \<times> js_val) list env" where
  "example_env =
     \<lparr>ensureEncryption = (\<lambda>e. (Inr True, e)),
      lookupSavedPassword = (\<lambda>url e. (Inr None, e)),
      saveGitAuth = (\<lambda>url auth e. (Inr (), e)),
      confirm = (\<lambda>msg e. (True, e)),
      prompt = (\<lambda>msg e. (Some ''secret'', e)),
      date_now = (\<lambda>e. 0),
      git_clone = (\<lambda>args.
         WriteFile (arg_dir args @ ''/README.md'') (JString ''hello'')
           [''encoding'' \<mapsto> JString ''utf8''] Return)\<rparr>"

text \<open>
  A library that writes a file named \<open>__proto__\<close> at the root of the working
  directory, as a clone of a repository with such a file does.
\<close>

definition proto_env :: "(string \<times> js_val) list env" where
  "proto_env =
     example_env\<lparr>git_clone := (\<lambda>args.
        WriteFile (arg_dir args @ ''/__proto__'') (JString ''hello'')
          [''encoding'' \<mapsto> JString ''utf8''] Return)\<rparr>"

definition example_world :: "(string \<times> js_val) list world" where
  "example_world =
     \<lparr>ext = [(''a.txt'', JString ''A'')], fileData = Map.empty, fileDataProto = None,
      toasts = [], dialogs = [], writeCalls = []\<rparr>"

definition example_hook :: "(string \<times> js_val) list hook" where
  "example_hook = fst (booted example_container example_world)"

definition example_workbench :: "unit workbench" where
  "example_workbench =
     \<lparr>wb_ext = (), wb_toasts = [], pushCalls = [], isGitHubPushing = False,
      showGitHubDialog = True, githubRepoName = ''bolt-generated-project'',
      githubUsername = ''octocat'', githubToken = ''ghp_0123456789'', isPrivateRepo = False,
      isNewBranch = True, newBranchName = ''feature/x''\<rparr>"

definition example_push :: "push_args \<Rightarrow> unit \<Rightarrow> (thrown + string) \<times> unit" where
  "example_push args e = (Inr (''https://github.com/'' @ push_username args @ ''/'' @ push_repoName args), e)"

definition example_editor :: "(string \<times> string) list editor_state" where
  "example_editor =
     \<lparr>documents = [''/home/project/a.txt'' \<mapsto>
        \<lparr>doc_value = ''A'', doc_filePath = Some ''/home/project/a.txt'', doc_scroll = None,
         doc_isBinary = Some False\<rparr>],
      versionHistory = [], unsavedFiles = {}, modifiedFiles = {}\<rparr>"

definition example_deps :: "(string \<times> string) list editor_deps" where
  "example_deps =
     \<lparr>addVersion = (\<lambda>filePath content description versions. (filePath, content) # versions),
      isExistingFile = (\<lambda>filePath. False)\<rparr>"

section \<open>Properties of pathUtils\<close>

lemma commonLoop_same:
  "i \<le> length ps \<Longrightarrow> commonLoop ps ps (length ps) i (c + i) = c + length ps"
proof (induction "length ps - i" arbitrary: i)
  case 0
  then show ?case by (simp add: commonLoop.simps)
next
  case (Suc n)
  then have lt: "i < length ps" by simp
  have "n = length ps - Suc i" and "Suc i \<le> length ps"
    using Suc.hyps(2) lt by simp_all
  then have "commonLoop ps ps (length ps) (Suc i) (c + Suc i) = c + length ps"
    by (rule Suc.hyps(1))
  with lt show ?case
    by (subst commonLoop.simps) simp
qed

text \<open>
  C9. \<open>pathUtils.relative(p, p)\<close> is \<open>'.'\<close> for every string \<open>p\<close>, and
  \<open>pathUtils.relative(from, to)\<close> is \<open>'.'\<close> whenever one of the arguments is the empty
  string; so a path equal to the working directory is translated to \<open>'.'\<close>.
\<close>

theorem relative_self_or_empty:
  "relative p p = ''.'' \<and> relative [] to = ''.'' \<and> relative from [] = ''.'' \<and>
   relative (workdir wc) (workdir wc) = ''.''"
proof -
  have "commonLoop (normalizePathParts p) (normalizePathParts p)
          (length (normalizePathParts p)) 0 (0 + 0) = 0 + length (normalizePathParts p)" for p
    by (rule commonLoop_same) simp
  then have same: "relative p p = ''.''" for p
    by (simp add: relative_def Let_def)
  have "relative [] to = ''.''" and "relative from [] = ''.''"
    by (simp_all add: relative_def)
  with same [of p] same [of "workdir wc"] show ?thesis
    by simp
qed

section \<open>What the adapter and the callbacks leave unchanged\<close>

lemma external_ext: "external call w = (r, w') \<Longrightarrow> \<exists>e. w' = w\<lparr>ext := e\<rparr>"
  by (auto simp: external_def split: prod.splits)

lemma adapter_ext:
  "readFile wc path options w = (r1, w') \<Longrightarrow> \<exists>e. w' = w\<lparr>ext := e\<rparr>"
  "mkdir wc path options w = (r2, w') \<Longrightarrow> \<exists>e. w' = w\<lparr>ext := e\<rparr>"
  "readdir wc path options w = (r3, w') \<Longrightarrow> \<exists>e. w' = w\<lparr>ext := e\<rparr>"
  "rm wc path options' w = (r4, w') \<Longrightarrow> \<exists>e. w' = w\<lparr>ext := e\<rparr>"
  "rmdir wc path options w = (r5, w') \<Longrightarrow> \<exists>e. w' = w\<lparr>ext := e\<rparr>"
  "unlink wc path w = (r6, w') \<Longrightarrow> \<exists>e. w' = w\<lparr>ext := e\<rparr>"
  "onAuthSuccess env url auth w = (r7, w') \<Longrightarrow> \<exists>e. w' = w\<lparr>ext := e\<rparr>"
  by (auto simp: readFile_def mkdir_def readdir_def rm_def rmdir_def unlink_def
      onAuthSuccess_def Let_def dest: external_ext)

lemma stat_ext: "stat env wc path w = (r, w') \<Longrightarrow> \<exists>e. w' = w\<lparr>ext := e\<rparr>"
  by (auto simp: stat_def Let_def split: prod.splits sum.splits option.splits dest: external_ext)

lemma lstat_ext: "lstat env wc path w = (r, w') \<Longrightarrow> \<exists>e. w' = w\<lparr>ext := e\<rparr>"
  by (simp add: lstat_def stat_ext)

lemma constant_ops:
  "readlink path w = (r1, w') \<Longrightarrow> w' = w"
  "symlink target path w = (r2, w') \<Longrightarrow> w' = w"
  "chmod path mode w = (r3, w') \<Longrightarrow> w' = w"
  by (auto simp: readlink_def symlink_def chmod_def)

lemma dialog_ext:
  "show_confirm env msg w = (b, w') \<Longrightarrow> \<exists>e. w' = w\<lparr>dialogs := dialogs w @ [msg], ext := e\<rparr>"
  "show_prompt env msg w = (a, w') \<Longrightarrow> \<exists>e. w' = w\<lparr>dialogs := dialogs w @ [msg], ext := e\<rparr>"
  by (auto simp: show_confirm_def show_prompt_def dest!: external_ext)

lemma onAuth_frame:
  assumes "onAuth env url w = (r, w')"
  shows "writeCalls w' = writeCalls w \<and> fileData w' = fileData w \<and> toasts w' = toasts w"
  using assms unfolding onAuth_def
  by (auto split: prod.splits sum.splits bool.splits option.splits if_splits
      dest!: external_ext dialog_ext)

lemma onAuthFailure_frame:
  "writeCalls (onAuthFailure url auth w) = writeCalls w \<and>
   fileData (onAuthFailure url auth w) = fileData w"
  by (simp add: onAuthFailure_def toast_error_def Let_def)

lemma writeFile_frame:
  assumes "writeFile wc path data options w = (r, w')"
  shows "writeCalls w' = writeCalls w @ [(path, data, options)] \<and>
         fileData w' = fileData w ++ map_of (recordedEntries wc [(path, data, options)])"
  using assms
  by (auto simp: writeFile_def assignEntry_def recorded_def recordedEntries_def Let_def
      dest!: external_ext)

lemma step_frame:
  assumes "writeCalls w1 = writeCalls w \<and> fileData w1 = fileData w"
    and "\<exists>ws. writeCalls w' = writeCalls w1 @ ws \<and>
           fileData w' = fileData w1 ++ map_of (rev (recordedEntries wc ws))"
  shows "\<exists>ws. writeCalls w' = writeCalls w @ ws \<and>
           fileData w' = fileData w ++ map_of (rev (recordedEntries wc ws))"
  using assms by simp

lemma git_run_frame:
  "git_run env wc prog w = (outcome, w') \<Longrightarrow>
     \<exists>ws. writeCalls w' = writeCalls w @ ws \<and>
          fileData w' = fileData w ++ map_of (rev (recordedEntries wc ws))"
proof (induction prog arbitrary: w)
  case (Return r)
  then show ?case by (simp add: recordedEntries_def)
next
  case (ReadFile path options k)
  obtain r w1 where w1: "readFile wc path options w = (r, w1)"
    by (cases "readFile wc path options w")
  with ReadFile.prems have "git_run env wc (k r) w1 = (outcome, w')"
    by simp
  then have later: "\<exists>ws. writeCalls w' = writeCalls w1 @ ws \<and>
          fileData w' = fileData w1 ++ map_of (rev (recordedEntries wc ws))"
    using ReadFile.IH [of "k r" w1] by auto
  have "writeCalls w1 = writeCalls w \<and> fileData w1 = fileData w"
    using adapter_ext(1) [OF w1] by auto
  then show ?case
    using later by (rule step_frame)
next
  case (WriteFile path data options k)
  obtain r w1 where w1: "writeFile wc path data options w = (r, w1)"
    by (cases "writeFile wc path data options w")
  with WriteFile.prems have "git_run env wc (k r) w1 = (outcome, w')"
    by simp
  then obtain ws where ws: "writeCalls w' = writeCalls w1 @ ws"
      "fileData w' = fileData w1 ++ map_of (rev (recordedEntries wc ws))"
    using WriteFile.IH [of "k r" w1] by auto
  from writeFile_frame [OF w1] ws
  have "writeCalls w' = writeCalls w @ ((path, data, options) # ws) \<and>
        fileData w' = fileData w ++ map_of (rev (recordedEntries wc ((path, data, options) # ws)))"
    by (simp add: recordedEntries_def)
  then show ?case by blast
next
  case (Mkdir path options k)
  obtain r w1 where w1: "mkdir wc path options w = (r, w1)"
    by (cases "mkdir wc path options w")
  with Mkdir.prems have "git_run env wc (k r) w1 = (outcome, w')"
    by simp
  then have later: "\<exists>ws. writeCalls w' = writeCalls w1 @ ws \<and>
          fileData w' = fileData w1 ++ map_of (rev (recordedEntries wc ws))"
    using Mkdir.IH [of "k r" w1] by auto
  have "writeCalls w1 = writeCalls w \<and> fileData w1 = fileData w"
    using adapter_ext(2) [OF w1] by auto
  then show ?case
    using later by (rule step_frame)
next
  case (Readdir path options k)
  obtain r w1 where w1: "readdir wc path options w = (r, w1)"
    by (cases "readdir wc path options w")
  with Readdir.prems have "git_run env wc (k r) w1 = (outcome, w')"
    by simp
  then have later: "\<exists>ws. writeCalls w' = writeCalls w1 @ ws \<and>
          fileData w' = fileData w1 ++ map_of (rev (recordedEntries wc ws))"
    using Readdir.IH [of "k r" w1] by auto
  have "writeCalls w1 = writeCalls w \<and> fileData w1 = fileData w"
    using adapter_ext(3) [OF w1] by auto
  then show ?case
    using later by (rule step_frame)
next
  case (Rm path options k)
  obtain r w1 where w1: "rm wc path options w = (r, w1)"
    by (cases "rm wc path options w")
  with Rm.prems have "git_run env wc (k r) w1 = (outcome, w')"
    by simp
  then have later: "\<exists>ws. writeCalls w' = writeCalls w1 @ ws \<and>
          fileData w' = fileData w1 ++ map_of (rev (recordedEntries wc ws))"
    using Rm.IH [of "k r" w1] by auto
  have "writeCalls w1 = writeCalls w \<and> fileData w1 = fileData w"
    using adapter_ext(4) [OF w1] by auto
  then show ?case
    using later by (rule step_frame)
next
  case (Rmdir path options k)
  obtain r w1 where w1: "rmdir wc path options w = (r, w1)"
    by (cases "rmdir wc path options w")
  with Rmdir.prems have "git_run env wc (k r) w1 = (outcome, w')"
    by simp
  then have later: "\<exists>ws. writeCalls w' = writeCalls w1 @ ws \<and>
          fileData w' = fileData w1 ++ map_of (rev (recordedEntries wc ws))"
    using Rmdir.IH [of "k r" w1] by auto
  have "writeCalls w1 = writeCalls w \<and> fileData w1 = fileData w"
    using adapter_ext(5) [OF w1] by auto
  then show ?case
    using later by (rule step_frame)
next
  case (Unlink path k)
  obtain r w1 where w1: "unlink wc path w = (r, w1)"
    by (cases "unlink wc path w")
  with Unlink.prems have "git_run env wc (k r) w1 = (outcome, w')"
    by simp
  then have later: "\<exists>ws. writeCalls w' = writeCalls w1 @ ws \<and>
          fileData w' = fileData w1 ++ map_of (rev (recordedEntries wc ws))"
    using Unlink.IH [of "k r" w1] by auto
  have "writeCalls w1 = writeCalls w \<and> fileData w1 = fileData w"
    using adapter_ext(6) [OF w1] by auto
  then show ?case
    using later by (rule step_frame)
next
  case (Stat path k)
  obtain r w1 where w1: "stat env wc path w = (r, w1)"
    by (cases "stat env wc path w")
  with Stat.prems have "git_run env wc (k r) w1 = (outcome, w')"
    by simp
  then have later: "\<exists>ws. writeCalls w' = writeCalls w1 @ ws \<and>
          fileData w' = fileData w1 ++ map_of (rev (recordedEntries wc ws))"
    using Stat.IH [of "k r" w1] by auto
  have "writeCalls w1 = writeCalls w \<and> fileData w1 = fileData w"
    using stat_ext [OF w1] by auto
  then show ?case
    using later by (rule step_frame)
next
  case (Lstat path k)
  obtain r w1 where w1: "lstat env wc path w = (r, w1)"
    by (cases "lstat env wc path w")
  with Lstat.prems have "git_run env wc (k r) w1 = (outcome, w')"
    by simp
  then have later: "\<exists>ws. writeCalls w' = writeCalls w1 @ ws \<and>
          fileData w' = fileData w1 ++ map_of (rev (recordedEntries wc ws))"
    using Lstat.IH [of "k r" w1] by auto
  have "writeCalls w1 = writeCalls w \<and> fileData w1 = fileData w"
    using lstat_ext [OF w1] by auto
  then show ?case
    using later by (rule step_frame)
next
  case (Readlink path k)
  obtain r w1 where w1: "readlink path w = (r, w1)"
    by (cases "readlink path w")
  with Readlink.prems have "git_run env wc (k r) w1 = (outcome, w')"
    by simp
  then have later: "\<exists>ws. writeCalls w' = writeCalls w1 @ ws \<and>
          fileData w' = fileData w1 ++ map_of (rev (recordedEntries wc ws))"
    using Readlink.IH [of "k r" w1] by auto
  have "writeCalls w1 = writeCalls w \<and> fileData w1 = fileData w"
    using constant_ops(1) [OF w1] by auto
  then show ?case
    using later by (rule step_frame)
next
  case (Symlink target path k)
  obtain r w1 where w1: "symlink target path w = (r, w1)"
    by (cases "symlink target path w")
  with Symlink.prems have "git_run env wc (k r) w1 = (outcome, w')"
    by simp
  then have later: "\<exists>ws. writeCalls w' = writeCalls w1 @ ws \<and>
          fileData w' = fileData w1 ++ map_of (rev (recordedEntries wc ws))"
    using Symlink.IH [of "k r" w1] by auto
  have "writeCalls w1 = writeCalls w \<and> fileData w1 = fileData w"
    using constant_ops(2) [OF w1] by auto
  then show ?case
    using later by (rule step_frame)
next
  case (Chmod path mode k)
  obtain r w1 where w1: "chmod path mode w = (r, w1)"
    by (cases "chmod path mode w")
  with Chmod.prems have "git_run env wc (k r) w1 = (outcome, w')"
    by simp
  then have later: "\<exists>ws. writeCalls w' = writeCalls w1 @ ws \<and>
          fileData w' = fileData w1 ++ map_of (rev (recordedEntries wc ws))"
    using Chmod.IH [of "k r" w1] by auto
  have "writeCalls w1 = writeCalls w \<and> fileData w1 = fileData w"
    using constant_ops(3) [OF w1] by auto
  then show ?case
    using later by (rule step_frame)
next
  case (OnAuth url k)
  obtain r w1 where w1: "onAuth env url w = (r, w1)"
    by (cases "onAuth env url w")
  with OnAuth.prems have "git_run env wc (k r) w1 = (outcome, w')"
    by simp
  then have later: "\<exists>ws. writeCalls w' = writeCalls w1 @ ws \<and>
          fileData w' = fileData w1 ++ map_of (rev (recordedEntries wc ws))"
    using OnAuth.IH [of "k r" w1] by auto
  have "writeCalls w1 = writeCalls w \<and> fileData w1 = fileData w"
    using onAuth_frame [OF w1] by auto
  then show ?case
    using later by (rule step_frame)
next
  case (OnAuthFailure url auth continue)
  then have later: "\<exists>ws. writeCalls w' = writeCalls (onAuthFailure url auth w) @ ws \<and>
          fileData w' = fileData (onAuthFailure url auth w) ++ map_of (rev (recordedEntries wc ws))"
    by simp
  have "writeCalls (onAuthFailure url auth w) = writeCalls w \<and>
        fileData (onAuthFailure url auth w) = fileData w"
    by (rule onAuthFailure_frame)
  then show ?case
    using later by (rule step_frame)
next
  case (OnAuthSuccess url auth k)
  obtain r w1 where w1: "onAuthSuccess env url auth w = (r, w1)"
    by (cases "onAuthSuccess env url auth w")
  with OnAuthSuccess.prems have "git_run env wc (k r) w1 = (outcome, w')"
    by simp
  then have later: "\<exists>ws. writeCalls w' = writeCalls w1 @ ws \<and>
          fileData w' = fileData w1 ++ map_of (rev (recordedEntries wc ws))"
    using OnAuthSuccess.IH [of "k r" w1] by auto
  have "writeCalls w1 = writeCalls w \<and> fileData w1 = fileData w"
    using adapter_ext(7) [OF w1] by auto
  then show ?case
    using later by (rule step_frame)
qed

section \<open>The adapter\<close>

lemma relative_examples:
  "relative ''/home/project'' ''/home/project/a.txt'' = ''a.txt''"
  "relative ''/home/project'' ''/home/project/b.txt'' = ''b.txt''"
  "relative ''/home/project'' ''/home/project/README.md'' = ''README.md''"
  "relative ''/home/project'' ''/home/project/__proto__'' = ''__proto__''"
  by code_simp+

text \<open>
  C1. For every absolute path \<open>p\<close> and options object \<open>options\<close>, the adapter's
  \<open>readFile\<close> returns exactly what the container's \<open>fs.readFile\<close> returns for
  \<open>pathUtils.relative(workdir, p)\<close> and \<open>options.encoding\<close>: the outcome is the
  container's outcome, and the state afterwards is the state before with the container's
  own change and nothing else.
\<close>

theorem readFile_forwards:
  "readFile wc p options w = (r, w') \<longleftrightarrow>
     (\<exists>e'. fs_readFile wc (relative (workdir wc) p) (property options ''encoding'') (ext w) = (r, e') \<and>
           w' = w\<lparr>ext := e'\<rparr>)"
  by (auto simp: readFile_def external_def Let_def split: prod.splits)

theorem readFile_forwards_witness:
  "readFile example_container ''/home/project/a.txt'' [''encoding'' \<mapsto> JString ''utf8''] example_world =
     (Inr (JString ''A''), example_world)"
  using readFile_forwards [where wc = example_container and p = "''/home/project/a.txt''"
      and options = "[''encoding'' \<mapsto> JString ''utf8'']" and w = example_world
      and r = "Inr (JString ''A'')" and w' = example_world]
  by (simp add: example_container_def example_world_def relative_examples)

text \<open>
  For every path whose relative path is not \<open>__proto__\<close>, \<open>writeFile\<close> writes the data
  to the container at the relative path, with \<open>options\<close> and its encoding, and stores
  the pair of the data and the encoding under the relative path in the record, whether
  the container's write resolves or rejects.
\<close>

lemma writeFile_records_other_paths:
  assumes "writeFile wc p d options w = (r, w')"
    and "relative (workdir wc) p \<noteq> ''__proto__''"
  shows "(\<exists>e'. fs_writeFile wc (relative (workdir wc) p) d
               (options(''encoding'' \<mapsto> property options ''encoding'')) (ext w) = (r, e') \<and> ext w' = e') \<and>
     fileData w' = (fileData w)(relative (workdir wc) p \<mapsto>
        \<lparr>entry_data = d, entry_encoding = property options ''encoding''\<rparr>) \<and>
     fileDataProto w' = fileDataProto w"
  using assms
  by (auto simp: writeFile_def assignEntry_def external_def Let_def split: prod.splits)

text \<open>
  C2. The claim is that \<open>writeFile(p, d, o)\<close>, for every path, stores the pair of
  \<open>d\<close> and \<open>o.encoding\<close> under the relative path in the record, so that the record
  has that entry after the call. At the path \<open>__proto__\<close> in the working directory
  the code does not: the container's write is made, the pair becomes the prototype of
  the record, and the record has no entry under \<open>__proto__\<close>.
\<close>

theorem writeFile_proto_not_recorded:
  "writeFile example_container ''/home/project/__proto__'' (JString ''hello'')
      [''encoding'' \<mapsto> JString ''utf8''] example_world =
     (Inr (),
      example_world
        \<lparr>ext := [(''__proto__'', JString ''hello''), (''a.txt'', JString ''A'')],
         fileDataProto := Some \<lparr>entry_data = JString ''hello'', entry_encoding = JString ''utf8''\<rparr>,
         writeCalls := [(''/home/project/__proto__'', JString ''hello'',
             [''encoding'' \<mapsto> JString ''utf8''])]\<rparr>) \<and>
   fileData (snd (writeFile example_container ''/home/project/__proto__'' (JString ''hello'')
      [''encoding'' \<mapsto> JString ''utf8''] example_world)) ''__proto__'' = None"
  by (simp add: writeFile_def assignEntry_def external_def property_def relative_examples Let_def
      example_container_def example_world_def)

text \<open>
  C8. For every path, the adapter's \<open>stat\<close> either returns a stats object whose
  \<open>isSymbolicLink()\<close> is false, whose size is 1 and whose mode is \<open>0o666\<close>, or throws
  an error with code \<open>ENOENT\<close>, errno -2 and syscall \<open>stat\<close>; a rejection of the
  container's \<open>readdir\<close>, whatever it carries, becomes that error; and \<open>lstat\<close> is
  \<open>stat\<close>.
\<close>

theorem stat_shape:
  "(case fst (stat env wc path w) of
      Inr st \<Rightarrow> \<not> st_isSymbolicLink st \<and> st_size st = 1 \<and> st_mode st = 438
    | Inl error \<Rightarrow> error = enoent path) \<and>
   (\<exists>e. enoent path = ThrownError e \<and> err_code e = Some ''ENOENT'' \<and> err_errno e = Some (- 2) \<and>
        err_syscall e = Some ''stat'' \<and> err_path e = Some path) \<and>
   (\<forall>error e'. fs_readdir wc (dirname (relative (workdir wc) path)) [''withFileTypes'' \<mapsto> JBool True] (ext w) = (Inl error, e') \<longrightarrow>
      stat env wc path w = (Inl (enoent path), w\<lparr>ext := e'\<rparr>)) \<and>
   lstat env wc path w = stat env wc path w"
  by (auto simp: stat_def lstat_def external_def enoent_def Let_def split: prod.splits sum.splits option.splits)

theorem stat_shape_witness:
  "stat example_env failing_container ''/home/project/a.txt'' example_world =
     (Inl (enoent ''/home/project/a.txt''), example_world) \<and>
   fst (stat example_env example_container ''/home/project/b.txt'' example_world) =
     Inl (enoent ''/home/project/b.txt'') \<and>
   st_mode (projr (fst (stat example_env example_container ''/home/project/a.txt'' example_world))) = 438 \<and>
   st_isFile (projr (fst (lstat example_env example_container ''/home/project/a.txt'' example_world)))"
  using stat_shape [where env = example_env and wc = failing_container
      and path = "''/home/project/a.txt''" and w = example_world]
  by (simp add: failing_container_def example_container_def example_world_def example_env_def
      stat_def lstat_def external_def findFileInfo_def relative_examples dirname_def basename_def
      stripTrailingSlashes_def)

section \<open>gitClone\<close>

text \<open>
  C4. For every URL, if the container, the adapter or the ready flag is not set,
  \<open>gitClone\<close> throws the string \<open>Webcontainer not initialized\<close> and leaves the whole
  state as it was: the record is not emptied and the Git library is not called.
\<close>

theorem gitClone_not_initialized:
  assumes "webcontainer h = None \<or> fs h = None \<or> \<not> ready h"
  shows "gitClone env h url w = (Inl (ThrownString ''Webcontainer not initialized''), w)"
  using assms by (auto simp: gitClone_def split: option.splits bool.splits)

theorem gitClone_not_initialized_witness:
  "gitClone example_env \<lparr>ready = False, webcontainer = Some example_container, fs = None\<rparr>
      ''https://github.com/a/b'' example_world =
     (Inl (ThrownString ''Webcontainer not initialized''), example_world)"
  using gitClone_not_initialized [where h = "\<lparr>ready = False, webcontainer = Some example_container, fs = None\<rparr>"
      and env = example_env and url = "''https://github.com/a/b''" and w = example_world]
  by simp

lemma startsWith_git: "startsWith url ''git@'' \<longleftrightarrow> take 4 url = ''git@''"
proof -
  have "length ''git@'' = 4" by simp
  then show ?thesis by (simp only: startsWith_def)
qed

lemma example_hook_fields:
  "webcontainer example_hook = Some example_container"
  "fs example_hook = Some example_container"
  "ready example_hook"
  by (simp_all add: example_hook_def booted_def)

lemma example_world_fields:
  "ext example_world = [(''a.txt'', JString ''A'')]"
  "fileData example_world = Map.empty"
  "fileDataProto example_world = None"
  "toasts example_world = []"
  "dialogs example_world = []"
  "writeCalls example_world = []"
  "emptyRecord example_world = example_world"
  by (simp_all add: example_world_def emptyRecord_def)

text \<open>
  C5, as it holds. When the container, the adapter and the ready flag are set: for every
  URL that starts with \<open>git@\<close>, \<open>gitClone\<close> throws an \<open>Error\<close> with the message
  \<open>SSH protocol is not supported. Please use HTTPS URL instead.\<close>, and the Git
  library's \<open>clone\<close> is not called: whatever the library would do, the outcome and the
  state are the same, the state being the one before with the record emptied and the
  message shown. For every other URL, \<open>gitClone\<close> is what running the library's
  \<open>clone\<close> gives when it is called with that URL, depth 1, \<open>singleBranch\<close> true, the
  container's working directory as \<open>dir\<close> and the adapter, on the state with the
  record emptied: its error with a notification, or the result built from the record.
\<close>

theorem gitClone_initialized_ssh_or_clone:
  assumes "webcontainer h = Some wc" and "fs h = Some fsc" and "ready h"
  shows "(take 4 url = ''git@'' \<longrightarrow>
            (\<forall>library. gitClone (env\<lparr>git_clone := library\<rparr>) h url w =
               (Inl (ThrownError (new_Error ''SSH protocol is not supported. Please use HTTPS URL instead.'')),
                toast_error ''SSH protocol is not supported. Please use HTTPS URL instead.''
                  (emptyRecord w)))) \<and>
         (take 4 url \<noteq> ''git@'' \<longrightarrow>
            gitClone env h url w =
              (case git_run env fsc
                      (git_clone env
                         \<lparr>arg_dir = workdir wc, arg_url = url, arg_depth = 1,
                          arg_singleBranch = True,
                          arg_corsProxy = ''https://cors.isomorphic-git.org''\<rparr>)
                      (emptyRecord w) of
                 (Inl error, w1) \<Rightarrow>
                   (Inl error,
                    toast_error
                      (case error of
                         ThrownError e \<Rightarrow> err_message e
                       | ThrownString s \<Rightarrow> ''Failed to clone repository'') w1)
               | (Inr u, w1) \<Rightarrow>
                   (Inr \<lparr>res_workdir = workdir wc, res_data = fileData w1\<rparr>, w1)))"
proof (cases "take 4 url = ''git@''")
  case True
  then have "startsWith url ''git@''"
    by (simp only: startsWith_git)
  with assms True show ?thesis
    by (simp add: gitClone_def gitClone_try_def new_Error_def)
next
  case False
  then have "\<not> startsWith url ''git@''"
    by (simp only: startsWith_git not_False_eq_True)
  with assms False show ?thesis
    by (simp add: gitClone_def gitClone_try_def clone_args_of_def
        split: prod.splits sum.splits)
qed

theorem gitClone_initialized_ssh_or_clone_witness:
  "gitClone example_env example_hook ''git@github.com:a/b.git'' example_world =
     (Inl (ThrownError (new_Error ''SSH protocol is not supported. Please use HTTPS URL instead.'')),
      example_world\<lparr>toasts :=
        [ToastError ''SSH protocol is not supported. Please use HTTPS URL instead.'']\<rparr>) \<and>
   gitClone example_env example_hook ''https://github.com/a/b'' example_world =
     (Inr \<lparr>res_workdir = ''/home/project'',
           res_data = [''README.md'' \<mapsto>
             \<lparr>entry_data = JString ''hello'', entry_encoding = JString ''utf8''\<rparr>]\<rparr>,
      snd (git_run example_env example_container
        (git_clone example_env
           \<lparr>arg_dir = ''/home/project'', arg_url = ''https://github.com/a/b'', arg_depth = 1,
            arg_singleBranch = True, arg_corsProxy = ''https://cors.isomorphic-git.org''\<rparr>)
        example_world))"
proof -
  have ssh: "take 4 ''git@github.com:a/b.git'' = ''git@''"
    by simp
  have https: "take 4 ''https://github.com/a/b'' \<noteq> ''git@''"
    by simp
  have same: "example_env\<lparr>git_clone := git_clone example_env\<rparr> = example_env"
    by simp
  have "gitClone (example_env\<lparr>git_clone := git_clone example_env\<rparr>) example_hook
          ''git@github.com:a/b.git'' example_world =
     (Inl (ThrownError (new_Error ''SSH protocol is not supported. Please use HTTPS URL instead.'')),
      toast_error ''SSH protocol is not supported. Please use HTTPS URL instead.''
        (emptyRecord example_world))"
    using gitClone_initialized_ssh_or_clone [OF example_hook_fields,
        where url = "''git@github.com:a/b.git''" and env = example_env and w = example_world] ssh
    by blast
  then have first: "gitClone example_env example_hook ''git@github.com:a/b.git'' example_world =
     (Inl (ThrownError (new_Error ''SSH protocol is not supported. Please use HTTPS URL instead.'')),
      example_world\<lparr>toasts :=
        [ToastError ''SSH protocol is not supported. Please use HTTPS URL instead.'']\<rparr>)"
    by (simp only: same) (simp add: toast_error_def example_world_fields)
  have second: "gitClone example_env example_hook ''https://github.com/a/b'' example_world =
      (case git_run example_env example_container
              (git_clone example_env
                 \<lparr>arg_dir = workdir example_container, arg_url = ''https://github.com/a/b'',
                  arg_depth = 1, arg_singleBranch = True,
                  arg_corsProxy = ''https://cors.isomorphic-git.org''\<rparr>)
              (emptyRecord example_world) of
         (Inl error, w1) \<Rightarrow>
           (Inl error,
            toast_error
              (case error of
                 ThrownError e \<Rightarrow> err_message e
               | ThrownString s \<Rightarrow> ''Failed to clone repository'') w1)
       | (Inr u, w1) \<Rightarrow>
           (Inr \<lparr>res_workdir = workdir example_container, res_data = fileData w1\<rparr>, w1))"
    using gitClone_initialized_ssh_or_clone [OF example_hook_fields,
        where url = "''https://github.com/a/b''" and env = example_env and w = example_world] https
    by blast
  from second have "gitClone example_env example_hook ''https://github.com/a/b'' example_world =
     (Inr \<lparr>res_workdir = ''/home/project'',
           res_data = [''README.md'' \<mapsto>
             \<lparr>entry_data = JString ''hello'', entry_encoding = JString ''utf8''\<rparr>]\<rparr>,
      snd (git_run example_env example_container
        (git_clone example_env
           \<lparr>arg_dir = ''/home/project'', arg_url = ''https://github.com/a/b'', arg_depth = 1,
            arg_singleBranch = True, arg_corsProxy = ''https://cors.isomorphic-git.org''\<rparr>)
        example_world))"
    by (simp add: example_env_def writeFile_def assignEntry_def external_def property_def
        relative_examples Let_def example_container_def example_world_def emptyRecord_def)
  with first show ?thesis
    by (rule conjI)
qed

text \<open>
  C5, as it is written, speaks of every URL that starts with \<open>git@\<close> and of no state
  of the hook. Before the container has booted, \<open>gitClone\<close> of such a URL throws the
  string \<open>Webcontainer not initialized\<close>, not the \<open>Error\<close>.
\<close>

theorem gitClone_ssh_without_boot:
  "fst (gitClone example_env \<lparr>ready = False, webcontainer = None, fs = None\<rparr>
          ''git@github.com:a/b.git'' example_world) =
     Inl (ThrownString ''Webcontainer not initialized'') \<and>
   fst (gitClone example_env \<lparr>ready = False, webcontainer = None, fs = None\<rparr>
          ''git@github.com:a/b.git'' example_world) \<noteq>
     Inl (ThrownError (new_Error ''SSH protocol is not supported. Please use HTTPS URL instead.''))"
  by (simp add: gitClone_def)

text \<open>
  When \<open>gitClone(url)\<close> succeeds, the \<open>workdir\<close> of the result is the container's
  working directory, and its \<open>data\<close> holds the entries left by the \<open>writeFile\<close> calls
  made during that clone (\<open>ws\<close> below), the last write of a path deciding its entry:
  every path written, relative to the working directory, except \<open>__proto__\<close>.
\<close>

lemma gitClone_data_own_entries:
  assumes "gitClone env h url w = (Inr result, w')"
  shows "\<exists>wc fsc ws. webcontainer h = Some wc \<and> fs h = Some fsc \<and>
           res_workdir result = workdir wc \<and>
           writeCalls w' = writeCalls w @ ws \<and>
           res_data result = map_of (rev (recordedEntries fsc ws))"
proof -
  from assms obtain wc fsc where h: "webcontainer h = Some wc" "fs h = Some fsc" "ready h"
    by (auto simp: gitClone_def split: option.splits bool.splits)
  from assms h have body: "gitClone_try env wc fsc url (emptyRecord w) = (Inr result, w')"
    by (auto simp: gitClone_def split: prod.splits sum.splits)
  then obtain u where run: "git_run env fsc (git_clone env (clone_args_of wc url)) (emptyRecord w) = (Inr u, w')"
    and res: "result = \<lparr>res_workdir = workdir wc, res_data = fileData w'\<rparr>"
    by (auto simp: gitClone_try_def split: if_splits prod.splits sum.splits)
  from git_run_frame [OF run] obtain ws where "writeCalls w' = writeCalls w @ ws"
    "fileData w' = map_of (rev (recordedEntries fsc ws))"
    by (auto simp: emptyRecord_def)
  with h res show ?thesis
    by auto
qed

text \<open>
  C3. The claim is that on success \<open>data\<close> maps exactly the paths written through the
  adapter's \<open>writeFile\<close> during the clone to their recorded pairs, no fewer. For a
  library that writes the file \<open>__proto__\<close> at the root of the working directory the
  code does not: the clone succeeds, the file is written to the container, and \<open>data\<close>
  is empty.
\<close>

theorem gitClone_proto_missing:
  "gitClone proto_env example_hook ''https://github.com/a/b'' example_world =
     (Inr \<lparr>res_workdir = ''/home/project'', res_data = Map.empty\<rparr>,
      example_world
        \<lparr>ext := [(''__proto__'', JString ''hello''), (''a.txt'', JString ''A'')],
         fileDataProto := Some \<lparr>entry_data = JString ''hello'', entry_encoding = JString ''utf8''\<rparr>,
         writeCalls := [(''/home/project/__proto__'', JString ''hello'',
             [''encoding'' \<mapsto> JString ''utf8''])]\<rparr>)"
  by (simp add: gitClone_def gitClone_try_def example_hook_fields startsWith_def proto_env_def
      example_env_def clone_args_of_def writeFile_def assignEntry_def external_def property_def
      relative_examples Let_def emptyRecord_def example_container_def example_world_def)

text \<open>
  C6. The order in which \<open>onAuth\<close> resolves credentials is fixed. If encryption cannot
  be ensured, the result is \<open>{cancel: true}\<close> and nothing is asked. Otherwise a saved
  password for the URL, when there is one, is returned and nothing is asked. A dialog is
  shown only when encryption is ensured and no credential is saved; and then the result
  is the pair of answers when the user confirms and gives a username and a password that
  are not empty, and \<open>{cancel: true}\<close> for every other response.
\<close>

theorem onAuth_resolution_order:
  "(ensureEncryption env (ext w) = (Inr False, after_ensure) \<longrightarrow>
      onAuth env url w = (Inr cancelled, w\<lparr>ext := after_ensure\<rparr>)) \<and>
   (ensureEncryption env (ext w) = (Inr True, after_ensure) \<and>
    lookupSavedPassword env url after_ensure = (Inr (Some auth), after_lookup) \<longrightarrow>
      onAuth env url w = (Inr auth, w\<lparr>ext := after_lookup\<rparr>)) \<and>
   (dialogs (snd (onAuth env url w)) \<noteq> dialogs w \<longrightarrow>
      (\<exists>after_ensure after_lookup. ensureEncryption env (ext w) = (Inr True, after_ensure) \<and>
         lookupSavedPassword env url after_ensure = (Inr None, after_lookup))) \<and>
   (ensureEncryption env (ext w) = (Inr True, after_ensure) \<and>
    lookupSavedPassword env url after_ensure = (Inr None, after_lookup) \<and>
    confirm env ''This repo is password protected. Ready to enter a username & password?'' after_lookup = (ok, after_confirm) \<and>
    prompt env ''Enter username'' after_confirm = (username, after_username) \<and>
    prompt env ''Enter password'' after_username = (password, after_password) \<longrightarrow>
      fst (onAuth env url w) =
        (if ok \<and> username \<noteq> None \<and> username \<noteq> Some [] \<and> password \<noteq> None \<and> password \<noteq> Some []
         then Inr \<lparr>auth_username = username, auth_password = password, auth_cancel = None\<rparr>
         else Inr cancelled))"
proof (intro conjI impI)
  assume "ensureEncryption env (ext w) = (Inr False, after_ensure)"
  then show "onAuth env url w = (Inr cancelled, w\<lparr>ext := after_ensure\<rparr>)"
    by (simp add: onAuth_def external_def)
next
  assume "ensureEncryption env (ext w) = (Inr True, after_ensure) \<and>
    lookupSavedPassword env url after_ensure = (Inr (Some auth), after_lookup)"
  then show "onAuth env url w = (Inr auth, w\<lparr>ext := after_lookup\<rparr>)"
    by (simp add: onAuth_def external_def)
next
  assume changed: "dialogs (snd (onAuth env url w)) \<noteq> dialogs w"
  obtain r1 after_ensure where a: "ensureEncryption env (ext w) = (r1, after_ensure)"
    by (cases "ensureEncryption env (ext w)")
  obtain r2 after_lookup where b: "lookupSavedPassword env url after_ensure = (r2, after_lookup)"
    by (cases "lookupSavedPassword env url after_ensure")
  from changed a have "r1 = Inr True"
    by (cases r1) (auto simp: onAuth_def external_def split: bool.splits)
  moreover from changed a b this have "r2 = Inr None"
    by (cases r2) (auto simp: onAuth_def external_def split: option.splits)
  ultimately show "\<exists>after_ensure after_lookup. ensureEncryption env (ext w) = (Inr True, after_ensure) \<and>
         lookupSavedPassword env url after_ensure = (Inr None, after_lookup)"
    using a b by auto
next
  assume "ensureEncryption env (ext w) = (Inr True, after_ensure) \<and>
    lookupSavedPassword env url after_ensure = (Inr None, after_lookup) \<and>
    confirm env ''This repo is password protected. Ready to enter a username & password?'' after_lookup = (ok, after_confirm) \<and>
    prompt env ''Enter username'' after_confirm = (username, after_username) \<and>
    prompt env ''Enter password'' after_username = (password, after_password)"
  then show "fst (onAuth env url w) =
        (if ok \<and> username \<noteq> None \<and> username \<noteq> Some [] \<and> password \<noteq> None \<and> password \<noteq> Some []
         then Inr \<lparr>auth_username = username, auth_password = password, auth_cancel = None\<rparr>
         else Inr cancelled)"
    by (cases ok; cases username; cases password)
      (simp_all add: onAuth_def external_def show_confirm_def show_prompt_def)
qed

theorem onAuth_resolution_order_witness:
  "onAuth (example_env\<lparr>ensureEncryption := (\<lambda>e. (Inr False, e))\<rparr>) ''https://github.com/a/b'' example_world =
     (Inr cancelled, example_world) \<and>
   onAuth (example_env\<lparr>lookupSavedPassword := (\<lambda>url e.
       (Inr (Some \<lparr>auth_username = Some ''octocat'', auth_password = Some ''token'', auth_cancel = None\<rparr>), e))\<rparr>)
     ''https://github.com/a/b'' example_world =
     (Inr \<lparr>auth_username = Some ''octocat'', auth_password = Some ''token'', auth_cancel = None\<rparr>,
      example_world) \<and>
   dialogs (snd (onAuth example_env ''https://github.com/a/b'' example_world)) =
     [''This repo is password protected. Ready to enter a username & password?'',
      ''Enter username'', ''Enter password''] \<and>
   fst (onAuth example_env ''https://github.com/a/b'' example_world) =
     Inr \<lparr>auth_username = Some ''secret'', auth_password = Some ''secret'', auth_cancel = None\<rparr> \<and>
   fst (onAuth (example_env\<lparr>prompt := (\<lambda>msg e. (None, e))\<rparr>) ''https://github.com/a/b'' example_world) =
     Inr cancelled"
  using
    onAuth_resolution_order [where env = "example_env\<lparr>ensureEncryption := (\<lambda>e. (Inr False, e))\<rparr>"
      and url = "''https://github.com/a/b''" and w = example_world and after_ensure = "ext example_world"]
    onAuth_resolution_order [where env = "example_env\<lparr>lookupSavedPassword := (\<lambda>url e.
       (Inr (Some \<lparr>auth_username = Some ''octocat'', auth_password = Some ''token'', auth_cancel = None\<rparr>), e))\<rparr>"
      and url = "''https://github.com/a/b''" and w = example_world and after_ensure = "ext example_world"
      and after_lookup = "ext example_world"
      and auth = "\<lparr>auth_username = Some ''octocat'', auth_password = Some ''token'', auth_cancel = None\<rparr>"]
    onAuth_resolution_order [where env = example_env
      and url = "''https://github.com/a/b''" and w = example_world and after_ensure = "ext example_world"
      and after_lookup = "ext example_world" and after_confirm = "ext example_world" and after_username = "ext example_world"
      and after_password = "ext example_world" and ok = True and username = "Some ''secret''"
      and password = "Some ''secret''"]
    onAuth_resolution_order [where env = "example_env\<lparr>prompt := (\<lambda>msg e. (None, e))\<rparr>"
      and url = "''https://github.com/a/b''" and w = example_world and after_ensure = "ext example_world"
      and after_lookup = "ext example_world" and after_confirm = "ext example_world" and after_username = "ext example_world"
      and after_password = "ext example_world" and ok = True and username = None and password = None]
  by (simp add: example_env_def onAuth_def external_def show_confirm_def show_prompt_def
      example_world_def)

section \<open>The push to GitHub\<close>

lemma endsWith_dot: "endsWith n ''.'' \<longleftrightarrow> n \<noteq> [] \<and> last n = CHR ''.''"
proof (cases "n = []")
  case True
  then show ?thesis by (simp add: endsWith_def)
next
  case False
  then have "n = butlast n @ [last n]" by simp
  then have "drop (length n - 1) n = [last n]"
    by (metis append_eq_conv_conj length_butlast)
  with False show ?thesis
    by (auto simp: endsWith_def Suc_le_eq)
qed

lemma isValidBranchName_iff:
  "isValidBranchName n \<longleftrightarrow>
     n \<noteq> [] \<and>
     set n \<inter> {CHR ''~'', CHR ''^'', CHR '':'', CHR ''?'', CHR ''*'', CHR ''['', CHR '']'', CHR 0x5C} = {} \<and>
     last n \<noteq> CHR ''.''"
  by (auto simp: isValidBranchName_def endsWith_dot invalidCharacters_def list_ex_iff)

lemma startsWith_token:
  "startsWith t ''ghp_'' \<longleftrightarrow> take 4 t = ''ghp_''"
  "startsWith t ''github_pat_'' \<longleftrightarrow> take 11 t = ''github_pat_''"
proof -
  have "length ''ghp_'' = 4" and "length ''github_pat_'' = 11" by simp_all
  then show "startsWith t ''ghp_'' \<longleftrightarrow> take 4 t = ''ghp_''"
    and "startsWith t ''github_pat_'' \<longleftrightarrow> take 11 t = ''github_pat_''"
    by (simp_all only: startsWith_def)
qed

lemma push_failed_calls:
  "\<exists>msg. push_failed error u = u\<lparr>wb_toasts := wb_toasts u @ [ToastError msg]\<rparr>"
  by (auto simp: push_failed_def wb_toast_def Let_def)

lemma push_allowed_guards:
  "push_allowed u \<longleftrightarrow>
     \<not> (githubRepoName u = [] \<or> githubUsername u = [] \<or> githubToken u = []) \<and>
     \<not> (\<not> startsWith (githubToken u) ''ghp_'' \<and> \<not> startsWith (githubToken u) ''github_pat_'') \<and>
     \<not> (isNewBranch u \<and> newBranchName u = []) \<and>
     \<not> (isNewBranch u \<and> \<not> isValidBranchName (newBranchName u))"
  unfolding push_allowed_def isValidBranchName_iff startsWith_token by blast

lemma push_args_example:
  "push_args_of example_workbench =
     \<lparr>push_repoName = ''bolt-generated-project'', push_username = ''octocat'',
      push_token = ''ghp_0123456789'', push_isPrivate = False,
      push_branchName = Some ''feature/x'', push_isNewBranch = True\<rparr>"
  by (simp add: push_args_of_def example_workbench_def trim_def isWhiteSpace_def)

text \<open>
  C7. \<open>handleGitHubPush\<close> calls the store's \<open>pushToGitHub\<close> exactly when the
  repository name, the username and the token are not empty, the token starts with
  \<open>ghp_\<close> or \<open>github_pat_\<close>, and, when a new branch is asked for, its name is not
  empty, has none of the characters \<open>~ ^ : ? * [ ] \\<close> and does not end with a dot.
  In every other case it shows one error and changes nothing else: \<open>pushToGitHub\<close> is
  not called.
\<close>

theorem handleGitHubPush_guard:
  "(push_allowed u \<longrightarrow>
      pushCalls (handleGitHubPush pushToGitHub u) = pushCalls u @ [push_args_of u]) \<and>
   (\<not> push_allowed u \<longrightarrow>
      (\<exists>msg. handleGitHubPush pushToGitHub u = u\<lparr>wb_toasts := wb_toasts u @ [ToastError msg]\<rparr>))"
proof (intro conjI impI)
  assume "push_allowed u"
  then have guards:
    "\<not> (githubRepoName u = [] \<or> githubUsername u = [] \<or> githubToken u = [])"
    "\<not> (\<not> startsWith (githubToken u) ''ghp_'' \<and> \<not> startsWith (githubToken u) ''github_pat_'')"
    "\<not> (isNewBranch u \<and> newBranchName u = [])"
    "\<not> (isNewBranch u \<and> \<not> isValidBranchName (newBranchName u))"
    unfolding push_allowed_guards by blast+
  let ?u2 = "u\<lparr>isGitHubPushing := True, pushCalls := pushCalls u @ [push_args_of u]\<rparr>"
  obtain r e' where call: "pushToGitHub (push_args_of u) (wb_ext u) = (r, e')"
    by (cases "pushToGitHub (push_args_of u) (wb_ext u)")
  show "pushCalls (handleGitHubPush pushToGitHub u) = pushCalls u @ [push_args_of u]"
  proof (cases r)
    case (Inl error)
    obtain msg where "push_failed error (?u2\<lparr>wb_ext := e'\<rparr>) =
        (?u2\<lparr>wb_ext := e'\<rparr>)\<lparr>wb_toasts := wb_toasts (?u2\<lparr>wb_ext := e'\<rparr>) @ [ToastError msg]\<rparr>"
      using push_failed_calls [of error "?u2\<lparr>wb_ext := e'\<rparr>"] by blast
    with call Inl show ?thesis
      unfolding handleGitHubPush_def by (simp only: guards if_False Let_def) simp
  next
    case (Inr repoUrl)
    with call show ?thesis
      unfolding handleGitHubPush_def by (simp only: guards if_False Let_def) (simp add: wb_toast_def)
  qed
next
  assume "\<not> push_allowed u"
  then consider "githubRepoName u = [] \<or> githubUsername u = [] \<or> githubToken u = []"
    | "\<not> startsWith (githubToken u) ''ghp_'' \<and> \<not> startsWith (githubToken u) ''github_pat_''"
    | "isNewBranch u \<and> newBranchName u = []"
    | "isNewBranch u \<and> \<not> isValidBranchName (newBranchName u)"
    unfolding push_allowed_guards by blast
  then have "\<exists>msg. handleGitHubPush pushToGitHub u = wb_toast (ToastError msg) u"
    by cases (auto simp: handleGitHubPush_def)
  then show "\<exists>msg. handleGitHubPush pushToGitHub u = u\<lparr>wb_toasts := wb_toasts u @ [ToastError msg]\<rparr>"
    by (simp only: wb_toast_def)
qed

theorem handleGitHubPush_guard_witness:
  "pushCalls (handleGitHubPush example_push example_workbench) =
     [\<lparr>push_repoName = ''bolt-generated-project'', push_username = ''octocat'',
       push_token = ''ghp_0123456789'', push_isPrivate = False,
       push_branchName = Some ''feature/x'', push_isNewBranch = True\<rparr>] \<and>
   handleGitHubPush example_push (example_workbench\<lparr>newBranchName := ''release.''\<rparr>) =
     example_workbench\<lparr>newBranchName := ''release.'',
       wb_toasts := [ToastError
         ''Invalid branch name. Please ensure it does not contain invalid characters or end with a dot.'']\<rparr> \<and>
   pushCalls (handleGitHubPush example_push (example_workbench\<lparr>githubToken := ''hunter2''\<rparr>)) = []"
proof -
  have allowed: "push_allowed example_workbench"
    by (simp add: push_allowed_def example_workbench_def)
  have dot: "\<not> push_allowed (example_workbench\<lparr>newBranchName := ''release.''\<rparr>)"
    by (simp add: push_allowed_def example_workbench_def)
  have token: "\<not> push_allowed (example_workbench\<lparr>githubToken := ''hunter2''\<rparr>)"
    by (simp add: push_allowed_def example_workbench_def)
  have "pushCalls (handleGitHubPush example_push example_workbench) =
      pushCalls example_workbench @ [push_args_of example_workbench]"
    using handleGitHubPush_guard [where u = example_workbench and pushToGitHub = example_push] allowed
    by blast
  moreover have "pushCalls (handleGitHubPush example_push (example_workbench\<lparr>githubToken := ''hunter2''\<rparr>)) = []"
    using handleGitHubPush_guard [where u = "example_workbench\<lparr>githubToken := ''hunter2''\<rparr>"
        and pushToGitHub = example_push] token
    by (auto simp: example_workbench_def)
  moreover have "handleGitHubPush example_push (example_workbench\<lparr>newBranchName := ''release.''\<rparr>) =
     example_workbench\<lparr>newBranchName := ''release.'',
       wb_toasts := [ToastError
         ''Invalid branch name. Please ensure it does not contain invalid characters or end with a dot.'']\<rparr>"
    by (simp add: handleGitHubPush_def example_workbench_def startsWith_def isValidBranchName_def
        endsWith_def invalidCharacters_def wb_toast_def)
  moreover have "pushCalls example_workbench = []"
    by (simp add: example_workbench_def)
  ultimately show ?thesis
    by (simp add: push_args_example)
qed

section \<open>The editor store\<close>

text \<open>
  \<open>updateFile(filePath, newContent)\<close> leaves the documents, the version history,
  \<open>unsavedFiles\<close> and \<open>modifiedFiles\<close> unchanged whenever \<open>newContent\<close> equals the
  document's value, or \<open>filePath\<close> has no document and is not the name of a member of
  \<open>Object.prototype\<close>; and when the files store does not consider the file existing,
  \<open>unsavedFiles\<close> and \<open>modifiedFiles\<close> are unchanged whatever else happens.
\<close>

lemma updateFile_frame_other_names:
  "((documents s filePath = None \<and> filePath \<notin> set objectPrototypeNames \<or>
      (\<exists>d. documents s filePath = Some d \<and> doc_value d = newContent)) \<longrightarrow>
     updateFile deps filePath newContent s = s) \<and>
   (\<not> isExistingFile deps filePath \<longrightarrow>
     unsavedFiles (updateFile deps filePath newContent s) = unsavedFiles s \<and>
     modifiedFiles (updateFile deps filePath newContent s) = modifiedFiles s)"
  by (auto simp: updateFile_def lookupDocument_def contentChanged_body_def Let_def
      split: option.splits document_lookup.splits)

text \<open>
  C10. The claim is that \<open>updateFile\<close> changes nothing whenever \<open>filePath\<close> has no
  document. For the path \<open>constructor\<close>, which has no document, the code does not
  return early: \<open>documents['constructor']\<close> is the inherited function, so a version is
  added and a document with only a value is stored.
\<close>

theorem updateFile_inherited_name:
  "documents example_editor ''constructor'' = None \<and>
   updateFile example_deps ''constructor'' ''x'' example_editor =
     example_editor
       \<lparr>documents := (documents example_editor)(''constructor'' \<mapsto>
          \<lparr>doc_value = ''x'', doc_filePath = None, doc_scroll = None, doc_isBinary = None\<rparr>),
        versionHistory := [(''constructor'', ''x'')]\<rparr> \<and>
   updateFile example_deps ''constructor'' ''x'' example_editor \<noteq> example_editor"
  by (simp add: updateFile_def lookupDocument_def contentChanged_body_def objectPrototypeNames_def
      example_editor_def example_deps_def)

end
